theory Spec2Isabelle
  imports Main "HOL-Library.Char_ord" "HOL-Library.List_Lexorder"
begin

section \<open>JavaScript strings\<close>

text \<open>
  A JavaScript string is a sequence of code units; it is modelled as a \<open>string\<close>, each
  \<open>char\<close> standing for one code unit in the range U+0000 to U+00FF.  Offsets count code
  units, as \<open>match.index\<close> does.
\<close>

text \<open>\<open>String.prototype.trim\<close> strips white space and line terminators from both ends:
  TAB, LF, VT, FF, CR, SPACE and NBSP are the ones below U+0100.\<close>

definition isWhiteSpace :: "char \<Rightarrow> bool" where
  "isWhiteSpace c \<longleftrightarrow>
     c = CHR 0x09 \<or> c = CHR 0x0A \<or> c = CHR 0x0B \<or> c = CHR 0x0C \<or> c = CHR 0x0D
     \<or> c = CHR 0x20 \<or> c = CHR 0xA0"

definition trim :: "string \<Rightarrow> string" where
  "trim s = rev (dropWhile isWhiteSpace (rev (dropWhile isWhiteSpace s)))"

text \<open>\<open>s.startsWith(p)\<close> and \<open>s.endsWith(p)\<close>.\<close>

definition startsWith :: "string \<Rightarrow> string \<Rightarrow> bool" where
  "startsWith s p \<longleftrightarrow> take (length p) s = p"

definition endsWith :: "string \<Rightarrow> string \<Rightarrow> bool" where
  "endsWith s p \<longleftrightarrow> length p \<le> length s \<and> drop (length s - length p) s = p"

text \<open>\<open>s.indexOf(pat)\<close>: the offset of the first occurrence, \<open>None\<close> for JavaScript's -1.\<close>

fun indexOf :: "string \<Rightarrow> string \<Rightarrow> nat option" where
  "indexOf [] pat = (if pat = [] then Some 0 else None)"
| "indexOf (c # cs) pat =
     (if startsWith (c # cs) pat then Some 0 else map_option Suc (indexOf cs pat))"

text \<open>
  \<open>GetSubstitution\<close> of ECMAScript for a string pattern (no capture groups, no named
  groups): in the replacement text \<open>$$\<close> stands for a dollar sign, \<open>$&\<close> for the matched
  text, \<open>$`\<close> for the text before the match and \<open>$'\<close> for the text after it; every other
  character, a dollar sign before a digit or \<open><\<close> included, is copied.
\<close>

fun getSubstitution :: "string \<Rightarrow> string \<Rightarrow> nat \<Rightarrow> string \<Rightarrow> string" where
  "getSubstitution matched str pos [] = []"
| "getSubstitution matched str pos [c] = [c]"
| "getSubstitution matched str pos (c # d # r) =
     (if c = CHR ''$'' \<and> d = CHR ''$'' then CHR ''$'' # getSubstitution matched str pos r
      else if c = CHR ''$'' \<and> d = CHR ''&'' then matched @ getSubstitution matched str pos r
      else if c = CHR ''$'' \<and> d = CHR 0x60 then take pos str @ getSubstitution matched str pos r
      else if c = CHR ''$'' \<and> d = CHR 0x27
        then drop (pos + length matched) str @ getSubstitution matched str pos r
      else c # getSubstitution matched str pos (d # r))"

text \<open>\<open>str.replace(pat, repl)\<close> with a string pattern: only the first occurrence of
  \<open>pat\<close> is replaced, by the substitution computed from \<open>repl\<close>.\<close>

definition replace :: "string \<Rightarrow> string \<Rightarrow> string \<Rightarrow> string" where
  "replace str pat repl =
     (case indexOf str pat of
        None \<Rightarrow> str
      | Some pos \<Rightarrow>
          take pos str @ getSubstitution pat str pos repl @ drop (pos + length pat) str)"

section \<open>The link scanner\<close>

text \<open>
  The pattern \<open>/\{\{([^}]+)\}\}/g\<close> anchored at the head of \<open>s\<close>: two opening braces, the
  greedy run of characters other than a closing brace, which must not be empty, and two
  closing braces.  Giving back characters of the run cannot help, since the character
  that would then have to be a closing brace is one of the run.  The result is the text
  of capture group 1.
\<close>

definition matchAt :: "string \<Rightarrow> string option" where
  "matchAt s =
     (case s of
        c1 # c2 # rest \<Rightarrow>
          if c1 = CHR ''{'' \<and> c2 = CHR ''{'' then
            (let inner = takeWhile (\<lambda>c. c \<noteq> CHR ''}'') rest;
                 after = dropWhile (\<lambda>c. c \<noteq> CHR ''}'') rest
             in if inner \<noteq> [] \<and> take 2 after = ''}}'' then Some inner else None)
          else None
      | _ \<Rightarrow> None)"

record regmatch =
  m_full :: string
  m_group :: string
  m_index :: nat

text \<open>The global search: \<open>content.matchAll(linkPattern)\<close>, and the \<open>exec\<close> loop of
  \<open>extractLinks\<close>; after a match the search resumes behind it, otherwise one code unit
  further.  \<open>i\<close> is the offset of \<open>s\<close> in the whole text.\<close>

function matchAll_from :: "nat \<Rightarrow> string \<Rightarrow> regmatch list" where
  "matchAll_from i [] = []"
| "matchAll_from i (c # cs) =
     (case matchAt (c # cs) of
        Some inner \<Rightarrow>
          \<lparr>m_full = ''{{'' @ inner @ ''}}'', m_group = inner, m_index = i\<rparr>
            # matchAll_from (i + (length inner + 4)) (drop (length inner + 4) (c # cs))
      | None \<Rightarrow> matchAll_from (i + 1) cs)"
  by pat_completeness auto
termination
  by (relation "measure (\<lambda>(i, s). length s)") auto

definition matchAll :: "string \<Rightarrow> regmatch list" where
  "matchAll content = matchAll_from 0 content"

record link =
  link_full :: string
  link_content :: string
  link_index :: nat

definition extractLinks :: "string \<Rightarrow> link list" where
  "extractLinks text =
     map (\<lambda>m. \<lparr>link_full = m_full m, link_content = trim (m_group m),
                 link_index = m_index m\<rparr>)
       (matchAll text)"

section \<open>Node's path module (POSIX)\<close>

text \<open>
  The functions of Node's \<open>path\<close> module that \<open>LinkProcessor\<close> calls, for POSIX
  paths: a path is cut at its slashes, empty and \<open>.\<close> segments are dropped and \<open>..\<close>
  removes the segment before it.  \<open>cwd\<close> stands for \<open>process.cwd()\<close>.
\<close>

definition isAbsolute :: "string \<Rightarrow> bool" where
  "isAbsolute p \<longleftrightarrow> (case p of [] \<Rightarrow> False | c # _ \<Rightarrow> c = CHR ''/'')"

fun splitSlash :: "string \<Rightarrow> string list" where
  "splitSlash [] = [[]]"
| "splitSlash (c # cs) =
     (if c = CHR ''/'' then [] # splitSlash cs
      else (case splitSlash cs of [] \<Rightarrow> [[c]] | seg # segs \<Rightarrow> (c # seg) # segs))"

fun joinSlash :: "string list \<Rightarrow> string" where
  "joinSlash [] = []"
| "joinSlash [seg] = seg"
| "joinSlash (seg # segs) = seg @ ''/'' @ joinSlash segs"

fun normalizeSegments :: "bool \<Rightarrow> string list \<Rightarrow> string list \<Rightarrow> string list" where
  "normalizeSegments allowAboveRoot res [] = res"
| "normalizeSegments allowAboveRoot res (seg # segs) =
     (if seg = [] \<or> seg = ''.'' then normalizeSegments allowAboveRoot res segs
      else if seg = ''..'' then
        (if res \<noteq> [] \<and> last res \<noteq> ''..''
           then normalizeSegments allowAboveRoot (butlast res) segs
         else if allowAboveRoot then normalizeSegments allowAboveRoot (res @ [''..'']) segs
         else normalizeSegments allowAboveRoot res segs)
      else normalizeSegments allowAboveRoot (res @ [seg]) segs)"

definition normalizeString :: "string \<Rightarrow> bool \<Rightarrow> string" where
  "normalizeString path allowAboveRoot =
     joinSlash (normalizeSegments allowAboveRoot [] (splitSlash path))"

text \<open>\<open>path.resolve(...args)\<close> reads its arguments from the right until the path is
  absolute, the working directory last.\<close>

fun resolveLoop :: "string list \<Rightarrow> string \<Rightarrow> string \<times> bool" where
  "resolveLoop [] resolvedPath = (resolvedPath, False)"
| "resolveLoop (p # ps) resolvedPath =
     (if p = [] then resolveLoop ps resolvedPath
      else if isAbsolute p then (p @ ''/'' @ resolvedPath, True)
      else resolveLoop ps (p @ ''/'' @ resolvedPath))"

definition path_resolve :: "string \<Rightarrow> string list \<Rightarrow> string" where
  "path_resolve cwd args =
     (case resolveLoop (rev args @ [cwd]) [] of
        (resolvedPath, resolvedAbsolute) \<Rightarrow>
          (let n = normalizeString resolvedPath (\<not> resolvedAbsolute)
           in if resolvedAbsolute then ''/'' @ n else if n \<noteq> [] then n else ''.''))"

definition path_normalize :: "string \<Rightarrow> string" where
  "path_normalize path =
     (if path = [] then ''.''
      else
        (let n = normalizeString path (\<not> isAbsolute path);
             trailingSeparator = (last path = CHR ''/'')
         in if n = [] then (if isAbsolute path then ''/'' else if trailingSeparator then ''./'' else ''.'')
            else (if isAbsolute path then ''/'' else []) @ n @ (if trailingSeparator then ''/'' else [])))"

definition path_join :: "string list \<Rightarrow> string" where
  "path_join args =
     (let parts = filter (\<lambda>a. a \<noteq> []) args
      in if parts = [] then ''.'' else path_normalize (joinSlash parts))"

text \<open>\<open>path.extname\<close>: the text from the last dot of the last path component on,
  empty when there is no dot, when the dot starts the component, and for \<open>..\<close>.\<close>

definition path_extname :: "string \<Rightarrow> string" where
  "path_extname path =
     (let stripped = rev (dropWhile (\<lambda>c. c = CHR ''/'') (rev path));
          base = rev (takeWhile (\<lambda>c. c \<noteq> CHR ''/'') (rev stripped));
          ext = rev (takeWhile (\<lambda>c. c \<noteq> CHR ''.'') (rev base));
          pre = take (length base - length ext - 1) base
      in if CHR ''.'' \<notin> set base \<or> pre = [] \<or> base = ''..'' then [] else CHR ''.'' # ext)"

section \<open>LinkProcessor\<close>

text \<open>\<open>String.prototype.toLowerCase\<close> on the code units below U+0100.\<close>

definition toLowerCase_char :: "char \<Rightarrow> char" where
  "toLowerCase_char c =
     (let n = (of_char c :: nat)
      in if (65 \<le> n \<and> n \<le> 90) \<or> (192 \<le> n \<and> n \<le> 222 \<and> n \<noteq> 215)
         then char_of (n + 32) else c)"

definition toLowerCase :: "string \<Rightarrow> string" where
  "toLowerCase s = map toLowerCase_char s"

definition supportedExt :: "string \<Rightarrow> bool" where
  "supportedExt ext \<longleftrightarrow> ext \<in> set [''.md'', ''.txt'']"

text \<open>One constructor for each \<open>throw\<close> of \<open>resolveLink\<close> and
  \<open>resolveFolderWildcard\<close>; \<open>FsError\<close> is a rejection of \<open>fs.stat\<close>, which the source
  does not wrap.  \<open>message\<close> is the \<open>error.message\<close> the caller reads.\<close>

datatype error =
    RootNotSet
  | FileOutsideRoot string
  | FileNotFound string
  | UnsupportedFileType string
  | FileReadFailed string string
  | FolderOutsideRoot string
  | FolderNotFound string
  | NotADirectory string
  | FolderReadFailed string string
  | FsError string

fun message :: "error \<Rightarrow> string" where
  "message RootNotSet = ''Root path not set. Use /root command to set the root directory.''"
| "message (FileOutsideRoot linkContent) = ''File path outside root directory: '' @ linkContent"
| "message (FileNotFound linkContent) = ''File not found: '' @ linkContent"
| "message (UnsupportedFileType ext) =
     ''Unsupported file type: '' @ ext @ ''. Only .md and .txt files are supported.''"
| "message (FileReadFailed linkContent msg) =
     ''Failed to read file: '' @ linkContent @ '' - '' @ msg"
| "message (FolderOutsideRoot folderPath) =
     ''Folder path outside root directory: '' @ folderPath"
| "message (FolderNotFound folderPath) = ''Folder not found: '' @ folderPath"
| "message (NotADirectory folderPath) = ''Path is not a directory: '' @ folderPath"
| "message (FolderReadFailed folderPath msg) =
     ''Failed to read folder: '' @ folderPath @ '' - '' @ msg"
| "message (FsError msg) = msg"

text \<open>
  What the processor reads from its collaborators: the substitutes of the data manager,
  its root path (the empty string when none is set), and the file system as \<open>fs-extra\<close>
  answers for a path; a rejected promise is \<open>Inl\<close> of its message.  The file system
  does not change during one call.  The substitutes are the own properties of the object
  with their string values, listed in the order of \<open>Object.keys\<close>; a lookup of a name
  that the object only inherits from \<open>Object.prototype\<close>, such as \<open>constructor\<close>, is
  outside the model.  The depth is a natural number: the callers start at 0.
\<close>

record env =
  substitutes :: "(string \<times> string) list"
  rootPath :: string
  cwd :: string
  pathExists :: "string \<Rightarrow> bool"
  statIsDirectory :: "string \<Rightarrow> string + bool"
  readdir :: "string \<Rightarrow> string + string list"
  readFile :: "string \<Rightarrow> string + string"

text \<open>\<open>substitutes[key]\<close> as the source tests it, by truthiness: an empty string counts
  as absent.\<close>

definition getSubstitute :: "(string \<times> string) list \<Rightarrow> string \<Rightarrow> string option" where
  "getSubstitute subs key =
     (case map_of subs key of
        None \<Rightarrow> None
      | Some v \<Rightarrow> if v = [] then None else Some v)"

definition maxDepth :: nat where
  "maxDepth = 10"

text \<open>The body of the loop over the supported files of a folder: the heading and the
  content of one file, or the heading and the read error.\<close>

definition readFolderFile :: "env \<Rightarrow> string \<Rightarrow> string \<Rightarrow> string" where
  "readFolderFile e fullFolderPath file =
     (case readFile e (path_join [fullFolderPath, file]) of
        Inr fileContent \<Rightarrow> [CHR 0x0A] @ ''--- '' @ file @ '' ---'' @ [CHR 0x0A] @ fileContent
      | Inl msg \<Rightarrow>
          [CHR 0x0A] @ ''--- '' @ file @ '' ---'' @ [CHR 0x0A]
            @ ''[ERROR: Failed to read file - '' @ msg @ '']'' @ [CHR 0x0A])"

text \<open>The text that replaces a marker whose link could not be resolved.\<close>

definition errorReplacement :: "string \<Rightarrow> error \<Rightarrow> string" where
  "errorReplacement linkContent err =
     ''{{'' @ linkContent @ ''}} [ERROR: '' @ message err @ '']''"

text \<open>
  \<open>processLinks\<close>, the loop over its matches (\<open>processMatches\<close>, with the text
  \<open>processed\<close> so far), \<open>resolveLink\<close> and \<open>resolveFolderWildcard\<close> call each other.
  The \<open>catch\<close> of the loop turns a thrown error into the annotation.
\<close>

function processLinks :: "env \<Rightarrow> string \<Rightarrow> nat \<Rightarrow> string"
  and processMatches :: "env \<Rightarrow> regmatch list \<Rightarrow> nat \<Rightarrow> string \<Rightarrow> string"
  and resolveLink :: "env \<Rightarrow> string \<Rightarrow> nat \<Rightarrow> error + string"
  and resolveFolderWildcard :: "env \<Rightarrow> string \<Rightarrow> nat \<Rightarrow> error + string"
where
  "processLinks e content depth =
     (if depth > maxDepth then content
      else processMatches e (matchAll content) depth content)"
| "processMatches e [] depth processed = processed"
| "processMatches e (m # ms) depth processed =
     processMatches e ms depth
       (case resolveLink e (trim (m_group m)) (depth + 1) of
          Inr replacement \<Rightarrow> replace processed (m_full m) replacement
        | Inl err \<Rightarrow> replace processed (m_full m) (errorReplacement (trim (m_group m)) err))"
| "resolveLink e linkContent depth =
     (case getSubstitute (substitutes e) linkContent of
        Some v \<Rightarrow> Inr (processLinks e v depth)
      | None \<Rightarrow>
          if endsWith linkContent ''/*'' then resolveFolderWildcard e linkContent depth
          else if rootPath e = [] then Inl RootNotSet
          else
            (let filePath = (if isAbsolute linkContent then linkContent
                             else path_resolve (cwd e) [rootPath e, linkContent]);
                 normalizedRoot = path_resolve (cwd e) [rootPath e];
                 normalizedFile = path_resolve (cwd e) [filePath]
             in if \<not> startsWith normalizedFile normalizedRoot
                  then Inl (FileOutsideRoot linkContent)
                else if \<not> pathExists e filePath then Inl (FileNotFound linkContent)
                else if \<not> supportedExt (toLowerCase (path_extname filePath))
                  then Inl (UnsupportedFileType (toLowerCase (path_extname filePath)))
                else
                  (case readFile e filePath of
                     Inl msg \<Rightarrow> Inl (FileReadFailed linkContent msg)
                   | Inr fileContent \<Rightarrow> Inr (processLinks e fileContent depth))))"
| "resolveFolderWildcard e linkContent depth =
     (let folderPath = take (length linkContent - 2) linkContent
      in if rootPath e = [] then Inl RootNotSet
         else
           (let fullFolderPath = (if isAbsolute folderPath then folderPath
                                  else path_resolve (cwd e) [rootPath e, folderPath]);
                normalizedRoot = path_resolve (cwd e) [rootPath e];
                normalizedFolder = path_resolve (cwd e) [fullFolderPath]
            in if \<not> startsWith normalizedFolder normalizedRoot
                 then Inl (FolderOutsideRoot folderPath)
               else if \<not> pathExists e fullFolderPath then Inl (FolderNotFound folderPath)
               else
                 (case statIsDirectory e fullFolderPath of
                    Inl msg \<Rightarrow> Inl (FsError msg)
                  | Inr isDir \<Rightarrow>
                      if \<not> isDir then Inl (NotADirectory folderPath)
                      else
                        (case readdir e fullFolderPath of
                           Inl msg \<Rightarrow> Inl (FolderReadFailed folderPath msg)
                         | Inr files \<Rightarrow>
                             (let supportedFiles =
                                    sort (filter (\<lambda>file. supportedExt (toLowerCase (path_extname file))) files)
                              in if supportedFiles = []
                                   then Inr (''[No supported files found in '' @ folderPath @ '']'')
                                 else Inr (processLinks e
                                        (concat (map (readFolderFile e fullFolderPath) supportedFiles))
                                        depth))))))"
  by pat_completeness auto

text \<open>
  Every call chain is finite: \<open>processLinks\<close> at a depth up to the maximum starts the
  loop, the loop calls the resolver one level deeper, and the resolver calls
  \<open>processLinks\<close> at the depth it was given; beyond the maximum \<open>processLinks\<close> calls
  nothing.  The loop itself runs down its list of matches.
\<close>

termination
  apply (relation "measures [\<lambda>x. case x of
       Inl (Inl (e, content, depth)) \<Rightarrow> 4 * (11 - depth)
     | Inl (Inr (e, ms, depth, processed)) \<Rightarrow> 4 * (10 - depth) + 3
     | Inr (Inl (e, l, depth)) \<Rightarrow> 4 * (11 - depth) + 2
     | Inr (Inr (e, l, depth)) \<Rightarrow> 4 * (11 - depth) + 1,
     \<lambda>x. case x of Inl (Inr (e, ms, depth, processed)) \<Rightarrow> length ms | _ \<Rightarrow> 0]")
  apply (auto simp: maxDepth_def)
  done

text \<open>\<open>validateLinks\<close> calls \<open>resolveLink\<close> at depth 0 for every link.\<close>

record validation =
  v_link :: string
  v_valid :: bool
  v_error :: "string option"

definition validateLinks :: "env \<Rightarrow> string \<Rightarrow> validation list" where
  "validateLinks e content =
     map (\<lambda>l. case resolveLink e (link_content l) 0 of
                 Inr replacement \<Rightarrow> \<lparr>v_link = link_content l, v_valid = True, v_error = None\<rparr>
               | Inl err \<Rightarrow>
                   \<lparr>v_link = link_content l, v_valid = False, v_error = Some (message err)\<rparr>)
       (extractLinks content)"

text \<open>
  \<open>getDependencyTree\<close>.  The recursion follows the contents of files, so the model
  carries fuel and returns \<open>None\<close> when it runs out.  Each recursive call gets a copy of
  \<open>visited\<close>; the name is deleted again after its subtree.
\<close>

datatype tree = Tree string "tree_link list"
  and tree_link =
    Circular string
  | SubstituteLink string tree
  | FileLink string string tree
  | MissingLink string
  | ErrorLink string string

definition preview :: "string \<Rightarrow> string" where
  "preview content = take 100 content @ (if length content > 100 then ''...'' else [])"

fun getDependencyTree :: "nat \<Rightarrow> env \<Rightarrow> string \<Rightarrow> string set \<Rightarrow> tree option"
  and treeLinks :: "nat \<Rightarrow> env \<Rightarrow> link list \<Rightarrow> string set \<Rightarrow> tree_link list option"
where
  "getDependencyTree 0 e content visited = None"
| "getDependencyTree (Suc fuel) e content visited =
     map_option (Tree (preview content)) (treeLinks fuel e (extractLinks content) visited)"
| "treeLinks fuel e [] visited = Some []"
| "treeLinks fuel e (l # ls) visited =
     (if link_content l \<in> visited
        then map_option (Cons (Circular (link_content l))) (treeLinks fuel e ls visited)
      else
        (let visited1 = insert (link_content l) visited;
             node =
               (case getSubstitute (substitutes e) (link_content l) of
                  Some v \<Rightarrow>
                    map_option (SubstituteLink (link_content l))
                      (getDependencyTree fuel e v visited1)
                | None \<Rightarrow>
                    (let filePath = (if isAbsolute (link_content l) then link_content l
                                     else path_resolve (cwd e) [rootPath e, link_content l])
                     in if pathExists e filePath then
                          (case readFile e filePath of
                             Inr fileContent \<Rightarrow>
                               map_option (FileLink (link_content l) filePath)
                                 (getDependencyTree fuel e fileContent visited1)
                           | Inl msg \<Rightarrow> Some (ErrorLink (link_content l) msg))
                        else Some (MissingLink (link_content l))))
         in case node of
              None \<Rightarrow> None
            | Some n \<Rightarrow> map_option (Cons n) (treeLinks fuel e ls (visited1 - {link_content l}))))"

definition hostFs :: "(string \<times> string) list \<Rightarrow> string \<Rightarrow> env" where
  "hostFs subs root =
     \<lparr>substitutes = subs, rootPath = root, cwd = ''/srv/app'',
      pathExists = (\<lambda>p. p \<in> set [''/root'', ''/root/notes.md'', ''/root-evil'',
                                   ''/root-evil/secret.md'', ''/etc/passwd'', ''/srv/app/.env'']),
      statIsDirectory = (\<lambda>p. if p \<in> set [''/root'', ''/root-evil''] then Inr True
                               else if p \<in> set [''/root/notes.md'', ''/root-evil/secret.md'', ''/etc/passwd'', ''/srv/app/.env''] then Inr False
                               else Inl ''ENOENT: no such file or directory''),
      readdir = (\<lambda>p. if p = ''/root'' then Inr [''notes.md'']
                       else if p = ''/root-evil'' then Inr [''secret.md'']
                       else Inl ''ENOTDIR: not a directory''),
      readFile = (\<lambda>p. if p = ''/root/notes.md'' then Inr ''notes''
                        else if p = ''/root-evil/secret.md'' then Inr ''TOP SECRET''
                        else if p = ''/etc/passwd'' then Inr ''root:x:0:0''
                        else if p = ''/srv/app/.env'' then Inr ''API_KEY=1''
                        else Inl ''ENOENT: no such file or directory'')\<rparr>"

text \<open>
  \<open>checkCircularDependencies\<close>: the closure \<open>dfs\<close> with the three variables it
  updates, and its loop over the links of one substitute (\<open>dfsLinks\<close>).
  \<open>array_indexOf\<close> is \<open>Array.prototype.indexOf\<close>; \<open>path.slice(-1)\<close> is what
  \<open>slice\<close> does when \<open>indexOf\<close> answers -1.
\<close>

record dfs_state =
  visited :: "string set"
  recursionStack :: "string set"
  cycles :: "string list list"





section \<open>The dependency graph of the substitutes\<close>



section \<open>An example installation\<close>

text \<open>
  A root directory \<open>/root\<close> with a file and two folders, a sibling directory
  \<open>/root-evil\<close>, and files elsewhere on the host; the server runs in \<open>/srv/app\<close>.
  One file of \<open>/root/docs\<close> cannot be read.
\<close>

definition exampleFiles :: "(string \<times> (string + string)) list" where
  "exampleFiles =
     [(''/root/notes.md'', Inr ''notes''),
      (''/root/docs/b.txt'', Inr ''bee''),
      (''/root/docs/a.md'', Inr ''ay''),
      (''/root/docs/c.png'', Inr ''png''),
      (''/root/docs/LOCKED.MD'', Inl ''EACCES: permission denied''),
      (''/root/img/c.png'', Inr ''png''),
      (''/root-evil/secret.md'', Inr ''TOP SECRET''),
      (''/etc/passwd'', Inr ''root:x:0:0''),
      (''/srv/app/.env'', Inr ''API_KEY=1'')]"

definition exampleDirs :: "(string \<times> string list) list" where
  "exampleDirs =
     [(''/root'', [''notes.md'', ''docs'', ''img'']),
      (''/root/docs'', [''b.txt'', ''a.md'', ''c.png'', ''LOCKED.MD'']),
      (''/root/img'', [''c.png'']),
      (''/root-evil'', [''secret.md''])]"

definition exampleEnv :: "(string \<times> string) list \<Rightarrow> string \<Rightarrow> env" where
  "exampleEnv subs root =
     \<lparr>substitutes = subs, rootPath = root, cwd = ''/srv/app'',
      pathExists = (\<lambda>p. case map_of exampleDirs p of
                            Some names \<Rightarrow> True
                          | None \<Rightarrow> (case map_of exampleFiles p of
                                       Some r \<Rightarrow> True
                                     | None \<Rightarrow> False)),
      statIsDirectory = (\<lambda>p. case map_of exampleDirs p of
                                 Some names \<Rightarrow> Inr True
                               | None \<Rightarrow> (case map_of exampleFiles p of
                                            Some r \<Rightarrow> Inr False
                                          | None \<Rightarrow> Inl ''ENOENT: no such file or directory'')),
      readdir = (\<lambda>p. case map_of exampleDirs p of
                         Some names \<Rightarrow> Inr names
                       | None \<Rightarrow> Inl ''ENOTDIR: not a directory''),
      readFile = (\<lambda>p. case map_of exampleFiles p of
                          Some r \<Rightarrow> r
                        | None \<Rightarrow> Inl ''ENOENT: no such file or directory'')\<rparr>"

section \<open>The scanner returns the markers of a text\<close>

lemma matchAt_Some_iff:
  "matchAt s = Some inner \<longleftrightarrow>
     (\<exists>rest. s = ''{{'' @ inner @ ''}}'' @ rest) \<and> inner \<noteq> [] \<and> CHR ''}'' \<notin> set inner"
proof
  assume h: "matchAt s = Some inner"
  then obtain rest where s: "s = CHR ''{'' # CHR ''{'' # rest"
    by (auto simp: matchAt_def split: list.splits if_splits)
  let ?P = "\<lambda>c. c \<noteq> CHR ''}''"
  from h s have i: "inner = takeWhile ?P rest" and ne: "inner \<noteq> []"
    and t: "take 2 (dropWhile ?P rest) = ''}}''"
    by (auto simp: matchAt_def Let_def split: if_splits)
  have "rest = inner @ dropWhile ?P rest" using i by simp
  moreover have "dropWhile ?P rest = ''}}'' @ drop 2 (dropWhile ?P rest)"
    using t by (metis append_take_drop_id)
  ultimately have "s = ''{{'' @ inner @ ''}}'' @ drop 2 (dropWhile ?P rest)"
    using s by simp
  moreover have "CHR ''}'' \<notin> set inner" using i by (auto dest: set_takeWhileD)
  ultimately show "(\<exists>rest. s = ''{{'' @ inner @ ''}}'' @ rest) \<and> inner \<noteq> [] \<and> CHR ''}'' \<notin> set inner"
    using ne by blast
next
  assume "(\<exists>rest. s = ''{{'' @ inner @ ''}}'' @ rest) \<and> inner \<noteq> [] \<and> CHR ''}'' \<notin> set inner"
  then obtain rest where s: "s = ''{{'' @ inner @ ''}}'' @ rest" and ne: "inner \<noteq> []"
    and nb: "CHR ''}'' \<notin> set inner" by blast
  let ?P = "\<lambda>c. c \<noteq> CHR ''}''"
  have a: "\<And>x. x \<in> set inner \<Longrightarrow> ?P x" using nb by auto
  have "takeWhile ?P (inner @ ''}}'' @ rest) = inner"
    using a by simp
  moreover have "dropWhile ?P (inner @ ''}}'' @ rest) = ''}}'' @ rest"
    using a by simp
  ultimately show "matchAt s = Some inner"
    using s ne by (simp add: matchAt_def)
qed

lemma matchAt_length: "matchAt s = Some inner \<Longrightarrow> length inner + 4 \<le> length s"
  by (auto simp: matchAt_Some_iff)

lemma matchAll_from_sound:
  "m \<in> set (matchAll_from i s) \<Longrightarrow>
     i \<le> m_index m \<and> m_index m + length (m_full m) \<le> i + length s
     \<and> matchAt (drop (m_index m - i) s) = Some (m_group m)
     \<and> m_full m = ''{{'' @ m_group m @ ''}}''"
proof (induction i s rule: matchAll_from.induct)
  case (1 i)
  then show ?case by simp
next
  case (2 i c cs)
  show ?case
  proof (cases "matchAt (c # cs)")
    case None
    with 2 have "m \<in> set (matchAll_from (i + 1) cs)" by simp
    from "2.IH"(1)[OF None this]
    have a: "Suc i \<le> m_index m"
      and b: "m_index m + length (m_full m) \<le> Suc i + length cs"
      and c: "matchAt (drop (m_index m - Suc i) cs) = Some (m_group m)"
      and d: "m_full m = ''{{'' @ m_group m @ ''}}''"
      by auto
    have "m_index m - i = Suc (m_index m - Suc i)" using a by arith
    with c have "matchAt (drop (m_index m - i) (c # cs)) = Some (m_group m)" by simp
    with a b d show ?thesis by simp
  next
    case (Some inner)
    note len = matchAt_length[OF Some]
    from 2(3) Some consider
      (hd) "m = \<lparr>m_full = ''{{'' @ inner @ ''}}'', m_group = inner, m_index = i\<rparr>"
      | (tl) "m \<in> set (matchAll_from (i + (length inner + 4)) (drop (length inner + 4) (c # cs)))"
      by auto
    then show ?thesis
    proof cases
      case hd
      then show ?thesis using Some len by simp
    next
      case tl
      from "2.IH"(2)[OF Some tl] len
      have a: "i + (length inner + 4) \<le> m_index m"
        and b: "m_index m + length (m_full m) \<le> i + length (c # cs)"
        and c: "matchAt (drop (m_index m - (i + (length inner + 4))) (drop (length inner + 4) (c # cs))) = Some (m_group m)"
        and d: "m_full m = ''{{'' @ m_group m @ ''}}''"
        by auto
      have "m_index m - (i + (length inner + 4)) + (length inner + 4) = m_index m - i"
        using a by arith
      with c have "matchAt (drop (m_index m - i) (c # cs)) = Some (m_group m)"
        by (simp only: drop_drop)
      with a b d show ?thesis by simp
    qed
  qed
qed

lemma matchAll_from_sorted:
  "sorted_wrt (\<lambda>a b. m_index a + length (m_full a) \<le> m_index b) (matchAll_from i s)"
proof (induction i s rule: matchAll_from.induct)
  case (1 i)
  then show ?case by simp
next
  case (2 i c cs)
  show ?case
  proof (cases "matchAt (c # cs)")
    case None
    with 2 show ?thesis by simp
  next
    case (Some inner)
    have tl: "i + (length inner + 4) \<le> m_index m"
      if "m \<in> set (matchAll_from (i + (length inner + 4)) (drop (length inner + 4) (c # cs)))"
      for m
      using matchAll_from_sound[OF that] by simp
    show ?thesis using "2.IH"(2)[OF Some] Some by (auto dest!: tl)
  qed
qed

lemma matchAll_from_complete:
  "matchAt (drop p s) = Some inner \<Longrightarrow>
     \<exists>m \<in> set (matchAll_from i s). m_index m \<le> i + p \<and> i + p < m_index m + length (m_full m)"
proof (induction i s arbitrary: p rule: matchAll_from.induct)
  case (1 i)
  then show ?case by (simp add: matchAt_def)
next
  case (2 i c cs)
  show ?case
  proof (cases "matchAt (c # cs)")
    case None
    with 2(3) have "p \<noteq> 0" by (cases p) auto
    then obtain p' where p: "p = Suc p'" by (cases p) auto
    with 2(3) have "matchAt (drop p' cs) = Some inner" by simp
    from "2.IH"(1)[OF None this] None p show ?thesis by auto
  next
    case (Some inner0)
    show ?thesis
    proof (cases "p < length inner0 + 4")
      case True
      then show ?thesis using Some by simp
    next
      case False
      then have "drop p (c # cs) = drop (p - (length inner0 + 4)) (drop (length inner0 + 4) (c # cs))"
        by (simp only: drop_drop) simp
      with 2(3) have "matchAt (drop (p - (length inner0 + 4)) (drop (length inner0 + 4) (c # cs))) = Some inner"
        by simp
      from "2.IH"(2)[OF Some this] obtain m where
        "m \<in> set (matchAll_from (i + (length inner0 + 4)) (drop (length inner0 + 4) (c # cs)))"
        "m_index m \<le> i + (length inner0 + 4) + (p - (length inner0 + 4))"
        "i + (length inner0 + 4) + (p - (length inner0 + 4)) < m_index m + length (m_full m)"
        by blast
      then show ?thesis using Some False by (intro bexI[of _ m]) auto
    qed
  qed
qed


lemma extractLinks_sound:
  assumes "l \<in> set (extractLinks text)"
  shows "\<exists>inner rest. inner \<noteq> [] \<and> CHR ''}'' \<notin> set inner
           \<and> drop (link_index l) text = ''{{'' @ inner @ ''}}'' @ rest
           \<and> link_full l = ''{{'' @ inner @ ''}}'' \<and> link_content l = trim inner"
proof -
  from assms obtain m where m: "m \<in> set (matchAll_from 0 text)"
    and l: "l = \<lparr>link_full = m_full m, link_content = trim (m_group m), link_index = m_index m\<rparr>"
    by (auto simp: extractLinks_def matchAll_def)
  from matchAll_from_sound[OF m]
  have "matchAt (drop (m_index m) text) = Some (m_group m)"
    and f: "m_full m = ''{{'' @ m_group m @ ''}}''" by auto
  then obtain rest where "drop (m_index m) text = ''{{'' @ m_group m @ ''}}'' @ rest"
    "m_group m \<noteq> []" "CHR ''}'' \<notin> set (m_group m)"
    by (auto simp: matchAt_Some_iff)
  with f l show ?thesis by auto
qed

lemma extractLinks_sorted:
  "sorted_wrt (\<lambda>a b. link_index a + length (link_full a) \<le> link_index b) (extractLinks text)"
  using matchAll_from_sorted[of 0 "text"]
  by (simp add: extractLinks_def matchAll_def sorted_wrt_map)

lemma extractLinks_complete:
  assumes "inner \<noteq> []" "CHR ''}'' \<notin> set inner" "drop p text = ''{{'' @ inner @ ''}}'' @ rest"
  shows "\<exists>l \<in> set (extractLinks text). link_index l \<le> p \<and> p < link_index l + length (link_full l)"
proof -
  from assms have "matchAt (drop p text) = Some inner"
    by (auto simp: matchAt_Some_iff)
  from matchAll_from_complete[OF this, of 0]
  show ?thesis by (auto simp: extractLinks_def matchAll_def)
qed

text \<open>
  Claim C8, as amended.  \<open>extractLinks\<close> returns the markers of the text from left to
  right, none overlapping another.  A marker is two opening braces, a run of one or more
  characters none of which is a closing brace, and two closing braces; each link carries
  the marker text, the run with its surrounding white space trimmed, and the offset of
  the marker.  Every marker occurrence of the text starts inside a marker that is
  returned, so the first one returned is the leftmost; a text with no marker gives the
  empty list.
\<close>

theorem extractLinks_markers:
  "(\<forall>l \<in> set (extractLinks text).
       \<exists>inner rest. inner \<noteq> [] \<and> CHR ''}'' \<notin> set inner
         \<and> drop (link_index l) text = ''{{'' @ inner @ ''}}'' @ rest
         \<and> link_full l = ''{{'' @ inner @ ''}}'' \<and> link_content l = trim inner)
   \<and> sorted_wrt (\<lambda>a b. link_index a + length (link_full a) \<le> link_index b) (extractLinks text)
   \<and> (\<forall>p inner rest.
         inner \<noteq> [] \<and> CHR ''}'' \<notin> set inner \<and> drop p text = ''{{'' @ inner @ ''}}'' @ rest
         \<longrightarrow> (\<exists>l \<in> set (extractLinks text).
                link_index l \<le> p \<and> p < link_index l + length (link_full l)))
   \<and> ((\<forall>p inner rest. drop p text = ''{{'' @ inner @ ''}}'' @ rest
           \<longrightarrow> inner = [] \<or> CHR ''}'' \<in> set inner)
         \<longrightarrow> extractLinks text = [])"
proof (intro conjI)
  show "\<forall>l \<in> set (extractLinks text).
       \<exists>inner rest. inner \<noteq> [] \<and> CHR ''}'' \<notin> set inner
         \<and> drop (link_index l) text = ''{{'' @ inner @ ''}}'' @ rest
         \<and> link_full l = ''{{'' @ inner @ ''}}'' \<and> link_content l = trim inner"
    using extractLinks_sound by blast
  show "sorted_wrt (\<lambda>a b. link_index a + length (link_full a) \<le> link_index b) (extractLinks text)"
    by (rule extractLinks_sorted)
  show "\<forall>p inner rest.
         inner \<noteq> [] \<and> CHR ''}'' \<notin> set inner \<and> drop p text = ''{{'' @ inner @ ''}}'' @ rest
         \<longrightarrow> (\<exists>l \<in> set (extractLinks text).
                link_index l \<le> p \<and> p < link_index l + length (link_full l))"
    using extractLinks_complete by blast
  show "(\<forall>p inner rest. drop p text = ''{{'' @ inner @ ''}}'' @ rest
           \<longrightarrow> inner = [] \<or> CHR ''}'' \<in> set inner)
         \<longrightarrow> extractLinks text = []"
  proof
    assume no: "\<forall>p inner rest. drop p text = ''{{'' @ inner @ ''}}'' @ rest
           \<longrightarrow> inner = [] \<or> CHR ''}'' \<in> set inner"
    show "extractLinks text = []"
    proof (rule ccontr)
      assume "extractLinks text \<noteq> []"
      then obtain l where "l \<in> set (extractLinks text)" by (cases "extractLinks text") auto
      from extractLinks_sound[OF this] no show False by blast
    qed
  qed
qed

theorem extractLinks_markers_witness:
  "extractLinks ''See {{missing}} and {{ ok }}'' =
     [\<lparr>link_full = ''{{missing}}'', link_content = ''missing'', link_index = 4\<rparr>,
      \<lparr>link_full = ''{{ ok }}'', link_content = ''ok'', link_index = 20\<rparr>]
   \<and> (\<exists>inner rest. inner \<noteq> [] \<and> CHR ''}'' \<notin> set inner
         \<and> drop 20 ''See {{missing}} and {{ ok }}'' = ''{{'' @ inner @ ''}}'' @ rest
         \<and> ''ok'' = trim inner)
   \<and> extractLinks ''{{}}'' = []"
proof -
  have e: "extractLinks ''See {{missing}} and {{ ok }}'' =
     [\<lparr>link_full = ''{{missing}}'', link_content = ''missing'', link_index = 4\<rparr>,
      \<lparr>link_full = ''{{ ok }}'', link_content = ''ok'', link_index = 20\<rparr>]"
    by code_simp
  have "\<forall>l \<in> set (extractLinks ''See {{missing}} and {{ ok }}'').
       \<exists>inner rest. inner \<noteq> [] \<and> CHR ''}'' \<notin> set inner
         \<and> drop (link_index l) ''See {{missing}} and {{ ok }}'' = ''{{'' @ inner @ ''}}'' @ rest
         \<and> link_full l = ''{{'' @ inner @ ''}}'' \<and> link_content l = trim inner"
    using extractLinks_markers[of "''See {{missing}} and {{ ok }}''"] by blast
  from bspec[OF this, of "\<lparr>link_full = ''{{ ok }}'', link_content = ''ok'', link_index = 20\<rparr>"]
  have a: "\<exists>inner rest. inner \<noteq> [] \<and> CHR ''}'' \<notin> set inner
         \<and> drop 20 ''See {{missing}} and {{ ok }}'' = ''{{'' @ inner @ ''}}'' @ rest
         \<and> ''ok'' = trim inner"
    unfolding e by (simp del: drop_Cons_numeral append.simps) blast
  have "\<forall>p inner rest. drop p ''{{}}'' = ''{{'' @ inner @ ''}}'' @ rest
           \<longrightarrow> inner = [] \<or> CHR ''}'' \<in> set inner"
  proof (intro allI impI)
    fix p inner rest
    assume "drop p ''{{}}'' = ''{{'' @ inner @ ''}}'' @ rest"
    then have "length (drop p ''{{}}'') = length (''{{'' @ inner @ ''}}'' @ rest)" by simp
    moreover have "length (drop p ''{{}}'') \<le> 4" by simp
    moreover have "length (''{{'' @ inner @ ''}}'' @ rest) = 4 + length inner + length rest"
      by simp
    ultimately have "length inner = 0" by arith
    then show "inner = [] \<or> CHR ''}'' \<in> set inner" by simp
  qed
  then have b: "extractLinks ''{{}}'' = []"
    using extractLinks_markers[of "''{{}}''"] by blast
  from e a b show ?thesis by blast
qed

text \<open>C8 as stated fails: the inner text of \<open>{{a}b}}\<close> holds no two closing braces
  in a row, yet the text is not a marker.\<close>

theorem extractLinks_single_brace_counterexample:
  "extractLinks ''{{a}b}}'' = []"
  by code_simp

section \<open>Termination and the depth bound\<close>

declare processLinks.simps [simp del] resolveLink.simps [simp del]
  resolveFolderWildcard.simps [simp del]


lemma processLinks_beyond: "maxDepth < depth \<Longrightarrow> processLinks e content depth = content"
  by (simp add: processLinks.simps)





lemma getSubstitute_Some_iff:
  "getSubstitute subs key = Some v \<longleftrightarrow> map_of subs key = Some v \<and> v \<noteq> []"
  by (auto simp: getSubstitute_def split: option.splits)


section \<open>The root directory check\<close>

text \<open>
  Claim C2 on the code.  Both checks are \<open>startsWith\<close> on the resolved strings, with no
  separator after the root: for the root \<open>/root\<close> a reference into the sibling directory
  \<open>/root-evil\<close> passes, as a file link (relative or absolute) and as a folder wildcard, and
  the file is read.  A path that does not begin with the text of the root is refused.
\<close>
theorem root_check_sibling_prefix_passes:
  "path_resolve ''/srv/app'' [''/root''] = ''/root''
   \<and> path_resolve ''/srv/app'' [''/root'', ''../root-evil/secret.md''] = ''/root-evil/secret.md''
   \<and> resolveLink (exampleEnv [] ''/root'') ''../root-evil/secret.md'' 1 = Inr ''TOP SECRET''
   \<and> resolveLink (exampleEnv [] ''/root'') ''/root-evil/secret.md'' 1 = Inr ''TOP SECRET''
   \<and> resolveFolderWildcard (exampleEnv [] ''/root'') ''../root-evil/*'' 1
       = Inr ([CHR 0x0A] @ ''--- secret.md ---'' @ [CHR 0x0A] @ ''TOP SECRET'')
   \<and> resolveLink (exampleEnv [] ''/root'') ''../etc/passwd'' 1
       = Inl (FileOutsideRoot ''../etc/passwd'')"
  by code_simp

text \<open>
  Claim C3 on the code.  \<open>getDependencyTree\<close> has no check at all: with the root
  \<open>/root\<close> it reads \<open>/etc/passwd\<close>, which \<open>resolveLink\<close> refuses, and with no root
  set it reads a file of the working directory, where \<open>resolveLink\<close> reports that the
  root is not set.
\<close>
theorem getDependencyTree_reads_outside_root:
  "getDependencyTree 3 (exampleEnv [] ''/root'') ''{{/etc/passwd}}'' {}
     = Some (Tree ''{{/etc/passwd}}''
         [FileLink ''/etc/passwd'' ''/etc/passwd'' (Tree ''root:x:0:0'' [])])
   \<and> resolveLink (exampleEnv [] ''/root'') ''/etc/passwd'' 1 = Inl (FileOutsideRoot ''/etc/passwd'')
   \<and> getDependencyTree 3 (exampleEnv [] []) ''{{.env}}'' {}
     = Some (Tree ''{{.env}}'' [FileLink ''.env'' ''/srv/app/.env'' (Tree ''API_KEY=1'' [])])
   \<and> resolveLink (exampleEnv [] []) ''.env'' 1 = Inl RootNotSet"
  by code_simp

section \<open>Splicing the replacement\<close>

text \<open>
  Claim C5 on the code.  \<open>String.prototype.replace\<close> with a string pattern reads the
  replacement as a template and replaces the first occurrence in the text as it stands:
  the value \<open>$$5\<close> is spliced as \<open>$5\<close>; the pending replacement of the second
  marker lands in the text that replaced the first one; and of two identical markers
  whose replacement holds the marker again (a substitute that names itself, cut off at
  the maximum depth) the first is replaced twice and the second not at all.
\<close>
theorem replace_first_occurrence_not_verbatim:
  "processLinks (exampleEnv [(''price'', ''$$5'')] ''/root'') ''{{price}}'' 0 = ''$5''
   \<and> resolveLink (exampleEnv [(''a'', ''{{zz}}'')] ''/root'') ''a'' 1
       = Inr ''{{zz}} [ERROR: File not found: zz]''
   \<and> processLinks (exampleEnv [(''a'', ''{{zz}}'')] ''/root'') ''{{a}} and {{zz}}'' 0
       = ''{{zz}} [ERROR: File not found: zz] [ERROR: File not found: zz] and {{zz}}''
   \<and> resolveLink (exampleEnv [(''A'', ''{{A}}x'')] ''/root'') ''A'' 1 = Inr ''{{A}}xxxxxxxxxxx''
   \<and> processLinks (exampleEnv [(''A'', ''{{A}}x'')] ''/root'') ''{{A}} {{A}}'' 0
       = ''{{A}}xxxxxxxxxxxxxxxxxxxxxx {{A}}''"
  by code_simp

section \<open>What the resolver returns\<close>

text \<open>
  Claim C4, as amended.  For a reference that is a substitute key with a non-empty value,
  \<open>resolveLink\<close> returns the value expanded by \<open>processLinks\<close> at the depth it was
  given; the raw value comes back only beyond the maximum depth.  \<open>validateLinks\<close> marks
  a link valid exactly when \<open>resolveLink\<close> at depth 0, which expands recursively,
  returns a result.
\<close>
theorem resolveLink_expands_inside:
  "(map_of (substitutes e) ref = Some v \<and> v \<noteq> []
      \<longrightarrow> resolveLink e ref depth = Inr (processLinks e v depth))
   \<and> (map_of (substitutes e) ref = Some v \<and> v \<noteq> [] \<and> maxDepth < depth
      \<longrightarrow> resolveLink e ref depth = Inr v)
   \<and> map v_valid (validateLinks e content)
       = map (\<lambda>l. \<exists>expanded. resolveLink e (link_content l) 0 = Inr expanded)
           (extractLinks content)"
proof (intro conjI impI)
  assume a: "map_of (substitutes e) ref = Some v \<and> v \<noteq> []"
  then have "getSubstitute (substitutes e) ref = Some v" by (simp add: getSubstitute_Some_iff)
  then show "resolveLink e ref depth = Inr (processLinks e v depth)"
    by (simp add: resolveLink.simps)
next
  assume a: "map_of (substitutes e) ref = Some v \<and> v \<noteq> [] \<and> maxDepth < depth"
  then have "getSubstitute (substitutes e) ref = Some v" by (simp add: getSubstitute_Some_iff)
  then show "resolveLink e ref depth = Inr v"
    using a by (simp add: resolveLink.simps processLinks_beyond)
next
  show "map v_valid (validateLinks e content)
       = map (\<lambda>l. \<exists>expanded. resolveLink e (link_content l) 0 = Inr expanded)
           (extractLinks content)"
    by (auto simp: validateLinks_def split: sum.splits)
qed

theorem resolveLink_expands_inside_witness:
  "map_of (substitutes (exampleEnv [(''a'', ''{{b}}''), (''b'', ''{{nope}}'')] ''/root'')) ''a''
     = Some ''{{b}}''
   \<and> ''{{b}}'' \<noteq> []
   \<and> resolveLink (exampleEnv [(''a'', ''{{b}}''), (''b'', ''{{nope}}'')] ''/root'') ''a'' 0
     = Inr (processLinks (exampleEnv [(''a'', ''{{b}}''), (''b'', ''{{nope}}'')] ''/root'') ''{{b}}'' 0)
   \<and> processLinks (exampleEnv [(''a'', ''{{b}}''), (''b'', ''{{nope}}'')] ''/root'') ''{{b}}'' 0
     = ''{{nope}} [ERROR: File not found: nope]''
   \<and> maxDepth < 11
   \<and> resolveLink (exampleEnv [(''a'', ''{{b}}''), (''b'', ''{{nope}}'')] ''/root'') ''a'' 11
     = Inr ''{{b}}''
   \<and> map v_valid (validateLinks (exampleEnv [(''a'', ''{{b}}''), (''b'', ''{{nope}}'')] ''/root'')
          ''{{a}} {{nope}}'') = [True, False]"
proof -
  let ?e = "exampleEnv [(''a'', ''{{b}}''), (''b'', ''{{nope}}'')] ''/root''"
  note t = resolveLink_expands_inside[of ?e "''a''" "''{{b}}''"]
  have m: "map_of (substitutes ?e) ''a'' = Some ''{{b}}''" by (simp add: exampleEnv_def)
  have n: "''{{b}}'' \<noteq> []" by simp
  have d: "maxDepth < 11" by (simp add: maxDepth_def)
  have p: "processLinks ?e ''{{b}}'' 0 = ''{{nope}} [ERROR: File not found: nope]''"
    by code_simp
  have v: "map v_valid (validateLinks ?e ''{{a}} {{nope}}'') = [True, False]" by code_simp
  note t1 = t[of 0 "''''", THEN conjunct1, rule_format, OF conjI[OF m n]]
  note t2 = t[of 11 "''''", THEN conjunct2, THEN conjunct1, rule_format, OF conjI[OF m conjI[OF n d]]]
  show ?thesis by (intro conjI m n t1 p d t2 v)
qed

text \<open>C4 as stated fails: the value of \<open>a\<close> is a marker, and the resolver returns what
  the marker expands to.\<close>

theorem resolveLink_returns_expanded_counterexample:
  "resolveLink (exampleEnv [(''a'', ''{{b}}''), (''b'', ''x'')] ''/root'') ''a'' 0 = Inr ''x''
   \<and> map_of (substitutes (exampleEnv [(''a'', ''{{b}}''), (''b'', ''x'')] ''/root'')) ''a''
       = Some ''{{b}}''"
  by code_simp

section \<open>The order of dispatch\<close>






section \<open>Folder wildcards\<close>



section \<open>Cycle detection\<close>











section \<open>Failures stay inside their link\<close>






















end
